theory Spec2Isabelle
  imports Main "HOL-Library.Word"
begin

section \<open>interpreter/loaderinfo.go\<close>

text \<open>
  \<^verbatim>\<open>libpf.Range\<close> is a pair of \<^verbatim>\<open>uint64\<close> addresses (\<^verbatim>\<open>GetSymbolAsRanges\<close> builds
  one from \<^verbatim>\<open>uint64\<close> values). \<^verbatim>\<open>host.FileID\<close> and \<^verbatim>\<open>*pfelf.Reference\<close> are
  declared outside the two source files, so the record is polymorphic in them.
\<close>

record Range =
  Start :: "64 word"
  End :: "64 word"

record ('fid, 'ref) LoaderInfo =
  fileID :: 'fid
  elfRef :: 'ref
  gaps :: "Range list"

definition NewLoaderInfo :: "'fid \<Rightarrow> 'ref \<Rightarrow> Range list \<Rightarrow> ('fid, 'ref) LoaderInfo" where
  "NewLoaderInfo fid ref gs = \<lparr> fileID = fid, elfRef = ref, gaps = gs \<rparr>"

definition FileID :: "('fid, 'ref) LoaderInfo \<Rightarrow> 'fid" where
  "FileID i = fileID i"

definition Gaps :: "('fid, 'ref) LoaderInfo \<Rightarrow> Range list" where
  "Gaps i = gaps i"


section \<open>tracer/tpbase.go: data\<close>

type_synonym byte = "8 word"
type_synonym SymbolName = string
type_synonym SymbolValue = "64 word"

text \<open>
  \<^verbatim>\<open>libpf.Symbol\<close> and \<^verbatim>\<open>libpf.SymbolMap\<close>: \<^verbatim>\<open>LookupSymbol\<close> returns the symbol or an
  error, so the table is a partial map from names.
\<close>

record Symbol =
  Name :: SymbolName
  Address :: SymbolValue
  Size :: int

type_synonym SymbolMap = "SymbolName \<rightharpoonup> Symbol"

definition LookupSymbol :: "SymbolMap \<Rightarrow> SymbolName \<Rightarrow> Symbol option" where
  "LookupSymbol kernelSymbols name = kernelSymbols name"

text \<open>The message of an error raised by a library or by an analyzer.\<close>

type_synonym cause = string

text \<open>
  One constructor per error the two functions build, carrying the arguments of the
  format string, in the order of the source.
\<close>

datatype error =
    FailedToWriteCodedumpAddr SymbolValue cause
      \<comment> \<open>\<^verbatim>\<open>failed to write codedump_addr 0x%x: %v\<close>\<close>
  | FailedToAdjustRlimit cause
      \<comment> \<open>\<^verbatim>\<open>failed to adjust rlimit: %v\<close>\<close>
  | FailedToLoadTracepoint cause
      \<comment> \<open>\<^verbatim>\<open>failed to load tracepoint__sys_enter_bpf: %v\<close>\<close>
  | FailedToConfigureTracepoint cause
      \<comment> \<open>\<^verbatim>\<open>failed to configure tracepoint: %v\<close>\<close>
  | FailedToGetCodedump cause
      \<comment> \<open>\<^verbatim>\<open>failed to get codedump: %v\<close>\<close>
  | FailedToDeleteElement cause
      \<comment> \<open>\<^verbatim>\<open>failed to delete element from codedump_code: %v\<close>\<close>
  | AnalyzeFailed cause string
      \<comment> \<open>\<^verbatim>\<open>%w: %s\<close>, the analyzer's error and \<^verbatim>\<open>hex.Dump(code)\<close>\<close>
  | NoSupportedSymbolFound
      \<comment> \<open>\<^verbatim>\<open>no supported symbol found\<close>\<close>
  | DoesntLookSane "32 word"
      \<comment> \<open>\<^verbatim>\<open>tpbase offset %v doesn't look sane\<close>\<close>

text \<open>
  \<^verbatim>\<open>tpbase.Analyzer\<close>: the name of the kernel function it is bound to and its decoder,
  which returns a \<^verbatim>\<open>uint32\<close> or an error.
\<close>

record Analyzer =
  FunctionName :: string
  Analyze :: "byte list \<Rightarrow> cause + 32 word"


section \<open>The kernel and the process, as far as the two functions touch them\<close>

datatype rlimit = Limited nat | Unlimited

text \<open>Every interaction with the kernel the two functions make, for the log.\<close>

datatype call =
    UpdateAddr SymbolValue
  | MaximizeMemlock
  | NewProgram
  | Tracepoint
  | LookupCode
  | UpdateCode
  | CloseLink
  | CloseProgram
  | RestoreRlimit

text \<open>
  The state the two functions act on: the one slot of each of the two maps (both maps
  are taken to be present under their names), the resources the process holds, and a
  log of the calls made.
\<close>

record world =
  codedump_addr :: "64 word"    \<comment> \<open>slot 0 of the map \<^verbatim>\<open>codedump_addr\<close>\<close>
  codedump_code :: "byte list"  \<comment> \<open>slot 0 of the map \<^verbatim>\<open>codedump_code\<close>\<close>
  memlock :: rlimit             \<comment> \<open>the memlock resource limit of the process\<close>
  programs :: nat               \<comment> \<open>loaded programs the process holds open\<close>
  attached :: nat               \<comment> \<open>live attachments to \<^verbatim>\<open>sys_enter_bpf\<close>\<close>
  calls :: "call list"          \<comment> \<open>the calls made so far, oldest first\<close>

text \<open>
  What the source takes from outside the two files: the constant
  \<^verbatim>\<open>support.CodedumpBytes\<close>, the list \<^verbatim>\<open>tpbase.GetAnalyzers()\<close>, \<^verbatim>\<open>hex.Dump\<close>, and the
  behaviour of the machine: which call fails (and with what message) in which state,
  the kernel's memory, and the process memory that lies behind the four bytes of the
  local variable \<^verbatim>\<open>value0\<close>.
\<close>

record kernel =
  CodedumpBytes :: nat
  GetAnalyzers :: "Analyzer list"
  hexDump :: "byte list \<Rightarrow> string"
  fails :: "call \<Rightarrow> world \<Rightarrow> cause option"
  kmem :: "64 word \<Rightarrow> byte"
  behind_value0 :: "nat \<Rightarrow> byte"

definition enter :: "call \<Rightarrow> world \<Rightarrow> world" where
  "enter c w = w\<lparr>calls := calls w @ [c]\<rparr>"

text \<open>
  Modelled from the spec: the restricted program \<^verbatim>\<open>tracepoint__sys_enter_bpf\<close> is not
  under src/. Section 4.1: the program, when triggered, copies N bytes starting at the
  input-map address into the output map, and the triggering event precedes the
  syscall's own body. It runs on entry to a \<^verbatim>\<open>bpf\<close> system call while attached.
\<close>

definition probe :: "kernel \<Rightarrow> world \<Rightarrow> world" where
  "probe k w =
     (if 0 < attached w
      then w\<lparr>codedump_code :=
               map (\<lambda>i. kmem k (codedump_addr w + of_nat i)) [0..<CodedumpBytes k]\<rparr>
      else w)"

definition bpf_enter :: "kernel \<Rightarrow> call \<Rightarrow> world \<Rightarrow> world" where
  "bpf_enter k c w = probe k (enter c w)"

text \<open>\<^verbatim>\<open>funcAddressMap.Update(&key0, &funcAddr, UpdateAny)\<close>\<close>

definition Update_addr :: "kernel \<Rightarrow> 64 word \<Rightarrow> world \<Rightarrow> cause option \<times> world" where
  "Update_addr k funcAddr w =
     (case fails k (UpdateAddr funcAddr) w of
        Some err \<Rightarrow> (Some err, bpf_enter k (UpdateAddr funcAddr) w)
      | None \<Rightarrow> (None, (bpf_enter k (UpdateAddr funcAddr) w)\<lparr>codedump_addr := funcAddr\<rparr>))"

text \<open>
  Modelled from the spec: \<^verbatim>\<open>rlimit.MaximizeMemlock\<close> is not under src/. Section 4.1,
  step 2: transiently raise the process's resource limits to permit kernel-object
  loading; schedule restoration on exit. The function it returns is the limit it
  found, which \<open>restoreRlimit\<close> puts back.
\<close>

definition MaximizeMemlock_rlimit :: "kernel \<Rightarrow> world \<Rightarrow> (cause + rlimit) \<times> world" where
  "MaximizeMemlock_rlimit k w =
     (case fails k MaximizeMemlock w of
        Some err \<Rightarrow> (Inl err, enter MaximizeMemlock w)
      | None \<Rightarrow> (Inr (memlock w), (enter MaximizeMemlock w)\<lparr>memlock := Unlimited\<rparr>))"

definition restoreRlimit :: "rlimit \<Rightarrow> world \<Rightarrow> world" where
  "restoreRlimit old w = (enter RestoreRlimit w)\<lparr>memlock := old\<rparr>"

text \<open>
  \<^verbatim>\<open>cebpf.NewProgram(...)\<close> and \<^verbatim>\<open>prog.Close()\<close>. The source drops what \<^verbatim>\<open>Close\<close>
  returns, here and for the tracepoint, and the restoring function returns nothing: the
  three releases are taken to succeed.
\<close>

definition NewProgram_cebpf :: "kernel \<Rightarrow> world \<Rightarrow> cause option \<times> world" where
  "NewProgram_cebpf k w =
     (case fails k NewProgram w of
        Some err \<Rightarrow> (Some err, bpf_enter k NewProgram w)
      | None \<Rightarrow> (None, (bpf_enter k NewProgram w)\<lparr>programs := programs w + 1\<rparr>))"

definition prog_Close :: "world \<Rightarrow> world" where
  "prog_Close w = (enter CloseProgram w)\<lparr>programs := programs w - 1\<rparr>"

text \<open>\<^verbatim>\<open>link.Tracepoint("syscalls", "sys_enter_bpf", prog, nil)\<close> and \<^verbatim>\<open>perfEvent.Close()\<close>\<close>

definition Tracepoint_link :: "kernel \<Rightarrow> world \<Rightarrow> cause option \<times> world" where
  "Tracepoint_link k w =
     (case fails k Tracepoint w of
        Some err \<Rightarrow> (Some err, enter Tracepoint w)
      | None \<Rightarrow> (None, (enter Tracepoint w)\<lparr>attached := attached w + 1\<rparr>))"

definition perfEvent_Close :: "world \<Rightarrow> world" where
  "perfEvent_Close w = (enter CloseLink w)\<lparr>attached := attached w - 1\<rparr>"

text \<open>
  \<^verbatim>\<open>functionCode.Lookup(&key0, &codeDump)\<close>: on success \<^verbatim>\<open>codeDump\<close>, made with
  \<^verbatim>\<open>CodedumpBytes\<close> bytes at line 79, holds the value of the slot.
\<close>

definition Lookup_code :: "kernel \<Rightarrow> world \<Rightarrow> (cause + byte list) \<times> world" where
  "Lookup_code k w =
     (case fails k LookupCode w of
        Some err \<Rightarrow> (Inl err, bpf_enter k LookupCode w)
      | None \<Rightarrow> (Inr (codedump_code (bpf_enter k LookupCode w)), bpf_enter k LookupCode w))"

text \<open>The four bytes of a \<^verbatim>\<open>uint32\<close> in memory, least significant first.\<close>

definition bytes_of_uint32 :: "32 word \<Rightarrow> byte list" where
  "bytes_of_uint32 v = map (\<lambda>i. ucast (drop_bit (8 * i) v)) [0..<4]"

text \<open>
  \<^verbatim>\<open>functionCode.Update(&key0, unsafe.Pointer(&value0), UpdateAny)\<close>: the value is passed
  as a bare address, the address of the four-byte variable \<^verbatim>\<open>value0\<close>. A value of this
  map is \<^verbatim>\<open>CodedumpBytes\<close> long (it is the value \<open>Lookup_code\<close> reads into \<^verbatim>\<open>codeDump\<close>),
  and that many bytes are taken from the address: the bytes of \<^verbatim>\<open>value0\<close>, then the
  process memory behind them.
\<close>

definition Update_code :: "kernel \<Rightarrow> 32 word \<Rightarrow> world \<Rightarrow> cause option \<times> world" where
  "Update_code k value0 w =
     (case fails k UpdateCode w of
        Some err \<Rightarrow> (Some err, bpf_enter k UpdateCode w)
      | None \<Rightarrow>
          (None, (bpf_enter k UpdateCode w)\<lparr>codedump_code :=
             take (CodedumpBytes k)
               (bytes_of_uint32 value0 @ map (behind_value0 k) [0..<CodedumpBytes k - 4])\<rparr>))"


section \<open>tracer/tpbase.go: loadKernelCode\<close>

text \<open>
  A \<^verbatim>\<open>defer f()\<close> runs \<open>f\<close> on the state in which the rest of the function body ends,
  whatever it returns.
\<close>

definition deferred :: "(world \<Rightarrow> world) \<Rightarrow> 'a \<times> world \<Rightarrow> 'a \<times> world" where
  "deferred f r = (fst r, f (snd r))"

text \<open>
  The function returns the pair \<^verbatim>\<open>([]byte, error)\<close>; the \<^verbatim>\<open>nil\<close> slice is the empty
  list and the \<^verbatim>\<open>nil\<close> error is \<open>None\<close>.
\<close>

definition loadKernelCode ::
  "kernel \<Rightarrow> SymbolValue \<Rightarrow> world \<Rightarrow> (byte list \<times> error option) \<times> world" where
  "loadKernelCode k functionAddress w =
     (case Update_addr k functionAddress w of
        (Some err, w1) \<Rightarrow> (([], Some (FailedToWriteCodedumpAddr functionAddress err)), w1)
      | (None, w1) \<Rightarrow>
     (case MaximizeMemlock_rlimit k w1 of
        (Inl err, w2) \<Rightarrow> (([], Some (FailedToAdjustRlimit err)), w2)
      | (Inr old, w2) \<Rightarrow>
     deferred (restoreRlimit old)
     (case NewProgram_cebpf k w2 of
        (Some err, w3) \<Rightarrow> (([], Some (FailedToLoadTracepoint err)), w3)
      | (None, w3) \<Rightarrow>
     deferred prog_Close
     (case Tracepoint_link k w3 of
        (Some err, w4) \<Rightarrow> (([], Some (FailedToConfigureTracepoint err)), w4)
      | (None, w4) \<Rightarrow>
     deferred perfEvent_Close
     (case Lookup_code k w4 of
        (Inl err, w5) \<Rightarrow> (([], Some (FailedToGetCodedump err)), w5)
      | (Inr codeDump, w5) \<Rightarrow>
     (case Update_code k 0 w5 of
        (Some err, w6) \<Rightarrow> (([], Some (FailedToDeleteElement err)), w6)
      | (None, w6) \<Rightarrow> ((codeDump, None), w6)))))))"


section \<open>tracer/tpbase.go: loadTPBaseOffset\<close>

text \<open>
  The loop of lines 101 to 118 over the analyzers that are left. \<open>Inl err\<close> is the
  \<^verbatim>\<open>return 0, err\<close> inside the loop; \<open>Inr v\<close> is the value of \<^verbatim>\<open>tpbaseOffset\<close> when the
  loop is left, by \<^verbatim>\<open>break\<close> or at the end of the list (where it still holds the zero
  it was declared with). The log line of line 116 is left out.
\<close>

fun analyzerLoop ::
  "kernel \<Rightarrow> SymbolMap \<Rightarrow> Analyzer list \<Rightarrow> world \<Rightarrow> (error + 32 word) \<times> world" where
  "analyzerLoop k kernelSymbols [] w = (Inr 0, w)"
| "analyzerLoop k kernelSymbols (analyzer # rest) w =
     (case LookupSymbol kernelSymbols (FunctionName analyzer) of
        None \<Rightarrow> analyzerLoop k kernelSymbols rest w
      | Some symb \<Rightarrow>
          (case loadKernelCode k (Address symb) w of
             ((code, Some err), w') \<Rightarrow> (Inl err, w')
           | ((code, None), w') \<Rightarrow>
               (case Analyze analyzer code of
                  Inl err \<Rightarrow> (Inl (AnalyzeFailed err (hexDump k code)), w')
                | Inr tpbaseOffset \<Rightarrow> (Inr tpbaseOffset, w'))))"

text \<open>The function returns the pair \<^verbatim>\<open>(uint64, error)\<close>.\<close>

definition loadTPBaseOffset ::
  "kernel \<Rightarrow> SymbolMap \<Rightarrow> world \<Rightarrow> (64 word \<times> error option) \<times> world" where
  "loadTPBaseOffset k kernelSymbols w =
     (case analyzerLoop k kernelSymbols (GetAnalyzers k) w of
        (Inl err, w') \<Rightarrow> ((0, Some err), w')
      | (Inr tpbaseOffset, w') \<Rightarrow>
          (if tpbaseOffset = 0 then ((0, Some NoSupportedSymbolFound), w')
           else if tpbaseOffset < 500 \<or> tpbaseOffset > 20000
             then ((0, Some (DoesntLookSane tpbaseOffset)), w')
           else ((ucast tpbaseOffset, None), w')))"


section \<open>Fixtures\<close>

text \<open>
  A small machine on which the two functions are run: dumps are eight bytes long, no
  call fails unless said otherwise, the kernel's text at \<open>text_base\<close> is a given list
  of bytes, and the decoder recognises the three bytes of a load from a 32-bit
  displacement and returns that displacement.
\<close>

definition quiet :: "call \<Rightarrow> world \<Rightarrow> cause option" where
  "quiet c w = None"

definition only_fails :: "call \<Rightarrow> cause \<Rightarrow> call \<Rightarrow> world \<Rightarrow> cause option" where
  "only_fails c0 msg c w = (if c = c0 then Some msg else None)"

definition text_base :: "64 word" where
  "text_base = 0xffffffff81000000"

definition text_at :: "byte list \<Rightarrow> 64 word \<Rightarrow> byte" where
  "text_at text a =
     (if unat (a - text_base) < length text then text ! unat (a - text_base) else 0)"

definition hex_digit :: "nat \<Rightarrow> char" where
  "hex_digit n = ''0123456789abcdef'' ! (n mod 16)"

definition plain_hex :: "byte list \<Rightarrow> string" where
  "plain_hex bs = concat (map (\<lambda>b. [hex_digit (unat b div 16), hex_digit (unat b)]) bs)"

definition uint32_le :: "byte list \<Rightarrow> 32 word" where
  "uint32_le bs = foldr (\<lambda>b acc. ucast b + push_bit 8 acc) bs 0"

definition decode_disp32 :: "byte list \<Rightarrow> cause + 32 word" where
  "decode_disp32 code =
     (if take 3 code = [0x48, 0x8b, 0x87] \<and> 7 \<le> length code
      then Inr (uint32_le (take 4 (drop 3 code)))
      else Inl ''unexpected code'')"

definition three_analyzers :: "Analyzer list" where
  "three_analyzers =
     [\<lparr>FunctionName = ''x86_fsbase_write_task'', Analyze = decode_disp32\<rparr>,
      \<lparr>FunctionName = ''aout_dump_debugregs'', Analyze = decode_disp32\<rparr>,
      \<lparr>FunctionName = ''tls_thread_switch'', Analyze = decode_disp32\<rparr>]"

definition symbol_at_base :: "SymbolName \<Rightarrow> Symbol" where
  "symbol_at_base name = \<lparr>Name = name, Address = text_base, Size = 8\<rparr>"

definition symbols_of :: "SymbolName list \<Rightarrow> SymbolMap" where
  "symbols_of names name = (if name \<in> set names then Some (symbol_at_base name) else None)"

definition machine :: "(call \<Rightarrow> world \<Rightarrow> cause option) \<Rightarrow> byte list \<Rightarrow> kernel" where
  "machine f text =
     \<lparr>CodedumpBytes = 8, GetAnalyzers = three_analyzers, hexDump = plain_hex, fails = f,
      kmem = text_at text, behind_value0 = (\<lambda>i. 0xAA)\<rparr>"

definition load_disp32 :: "byte \<Rightarrow> byte \<Rightarrow> byte list" where
  "load_disp32 b0 b1 = [0x48, 0x8b, 0x87, b0, b1, 0, 0, 0xc3]"

definition boot :: world where
  "boot = \<lparr>codedump_addr = 0, codedump_code = [], memlock = Limited 65536, programs = 0,
            attached = 0, calls = []\<rparr>"

text \<open>The calls of one extraction at \<open>text_base\<close> in which nothing fails, and the state
  it leaves when it starts from \<open>boot\<close>.\<close>

definition one_extraction :: "call list" where
  "one_extraction =
     [UpdateAddr text_base, MaximizeMemlock, NewProgram, Tracepoint, LookupCode, UpdateCode,
      CloseLink, CloseProgram, RestoreRlimit]"

definition extracted :: world where
  "extracted =
     boot\<lparr>codedump_addr := text_base,
          codedump_code := [0, 0, 0, 0, 0xAA, 0xAA, 0xAA, 0xAA],
          calls := one_extraction\<rparr>"

definition all_symbols :: SymbolMap where
  "all_symbols =
     symbols_of [''x86_fsbase_write_task'', ''aout_dump_debugregs'', ''tls_thread_switch'']"


section \<open>The accessors of LoaderInfo\<close>

text \<open>
  C10. For every fileID, ELF reference and list of gaps, the LoaderInfo that
  NewLoaderInfo builds from them gives the fileID back from FileID and the gaps back
  from Gaps, unchanged.
\<close>

theorem NewLoaderInfo_accessors:
  "FileID (NewLoaderInfo f r g) = f \<and> Gaps (NewLoaderInfo f r g) = g"
  by (simp add: FileID_def Gaps_def NewLoaderInfo_def)


section \<open>What each call does to the resources of the process\<close>

lemma Update_addr_held:
  "Update_addr k a w = (r, w') \<Longrightarrow>
     memlock w' = memlock w \<and> programs w' = programs w \<and> attached w' = attached w"
  by (auto simp: Update_addr_def bpf_enter_def probe_def enter_def split: option.splits)

lemma MaximizeMemlock_held:
  "MaximizeMemlock_rlimit k w = (r, w') \<Longrightarrow>
     programs w' = programs w \<and> attached w' = attached w \<and>
     (case r of Inl err \<Rightarrow> memlock w' = memlock w | Inr old \<Rightarrow> old = memlock w)"
  by (auto simp: MaximizeMemlock_rlimit_def enter_def split: option.splits)

lemma NewProgram_held:
  "NewProgram_cebpf k w = (r, w') \<Longrightarrow>
     memlock w' = memlock w \<and> attached w' = attached w \<and>
     programs w' = (case r of Some err \<Rightarrow> programs w | None \<Rightarrow> programs w + 1)"
  by (auto simp: NewProgram_cebpf_def bpf_enter_def probe_def enter_def split: option.splits)

lemma Tracepoint_held:
  "Tracepoint_link k w = (r, w') \<Longrightarrow>
     memlock w' = memlock w \<and> programs w' = programs w \<and>
     attached w' = (case r of Some err \<Rightarrow> attached w | None \<Rightarrow> attached w + 1)"
  by (auto simp: Tracepoint_link_def enter_def split: option.splits)

lemma Lookup_code_held:
  "Lookup_code k w = (r, w') \<Longrightarrow>
     memlock w' = memlock w \<and> programs w' = programs w \<and> attached w' = attached w"
  by (auto simp: Lookup_code_def bpf_enter_def probe_def enter_def split: option.splits)

lemma Update_code_held:
  "Update_code k v w = (r, w') \<Longrightarrow>
     memlock w' = memlock w \<and> programs w' = programs w \<and> attached w' = attached w"
  by (auto simp: Update_code_def bpf_enter_def probe_def enter_def split: option.splits)

lemma restoreRlimit_held:
  "memlock (restoreRlimit old w) = old"
  "programs (restoreRlimit old w) = programs w"
  "attached (restoreRlimit old w) = attached w"
  by (simp_all add: restoreRlimit_def enter_def)

lemma prog_Close_held:
  "memlock (prog_Close w) = memlock w"
  "programs (prog_Close w) = programs w - 1"
  "attached (prog_Close w) = attached w"
  by (simp_all add: prog_Close_def enter_def)

lemma perfEvent_Close_held:
  "memlock (perfEvent_Close w) = memlock w"
  "programs (perfEvent_Close w) = programs w"
  "attached (perfEvent_Close w) = attached w - 1"
  by (simp_all add: perfEvent_Close_def enter_def)

lemmas closes_held = restoreRlimit_held prog_Close_held perfEvent_Close_held

text \<open>While the program is attached, a lookup returns what the program has just copied.\<close>

lemma Lookup_code_attached:
  "Lookup_code k w = (Inr codeDump, w') \<Longrightarrow> 0 < attached w \<Longrightarrow>
     codeDump = map (\<lambda>i. kmem k (codedump_addr w + of_nat i)) [0..<CodedumpBytes k]"
  by (auto simp: Lookup_code_def bpf_enter_def probe_def enter_def split: option.splits)

lemma Update_code_slot:
  "Update_code k v w = (None, w') \<Longrightarrow>
     codedump_code w' =
       take (CodedumpBytes k)
         (bytes_of_uint32 v @ map (behind_value0 k) [0..<CodedumpBytes k - 4])"
  by (auto simp: Update_code_def split: option.splits)


section \<open>The exit paths of loadKernelCode\<close>

text \<open>
  The function has seven ways out: the six error returns of lines 54, 60, 69, 75, 82
  and 89, and the return of line 92. Each comes with the state it leaves, the deferred
  calls applied innermost first.
\<close>

lemma loadKernelCode_paths [case_names write_failed rlimit_failed load_failed attach_failed
    lookup_failed clear_failed success]:
  obtains
    err w1 where
      "Update_addr k a w = (Some err, w1)"
      "loadKernelCode k a w = (([], Some (FailedToWriteCodedumpAddr a err)), w1)"
  | err w1 w2 where
      "Update_addr k a w = (None, w1)"
      "MaximizeMemlock_rlimit k w1 = (Inl err, w2)"
      "loadKernelCode k a w = (([], Some (FailedToAdjustRlimit err)), w2)"
  | err old w1 w2 w3 where
      "Update_addr k a w = (None, w1)"
      "MaximizeMemlock_rlimit k w1 = (Inr old, w2)"
      "NewProgram_cebpf k w2 = (Some err, w3)"
      "loadKernelCode k a w = (([], Some (FailedToLoadTracepoint err)), restoreRlimit old w3)"
  | err old w1 w2 w3 w4 where
      "Update_addr k a w = (None, w1)"
      "MaximizeMemlock_rlimit k w1 = (Inr old, w2)"
      "NewProgram_cebpf k w2 = (None, w3)"
      "Tracepoint_link k w3 = (Some err, w4)"
      "loadKernelCode k a w =
         (([], Some (FailedToConfigureTracepoint err)), restoreRlimit old (prog_Close w4))"
  | err old w1 w2 w3 w4 w5 where
      "Update_addr k a w = (None, w1)"
      "MaximizeMemlock_rlimit k w1 = (Inr old, w2)"
      "NewProgram_cebpf k w2 = (None, w3)"
      "Tracepoint_link k w3 = (None, w4)"
      "Lookup_code k w4 = (Inl err, w5)"
      "loadKernelCode k a w =
         (([], Some (FailedToGetCodedump err)),
          restoreRlimit old (prog_Close (perfEvent_Close w5)))"
  | err codeDump old w1 w2 w3 w4 w5 w6 where
      "Update_addr k a w = (None, w1)"
      "MaximizeMemlock_rlimit k w1 = (Inr old, w2)"
      "NewProgram_cebpf k w2 = (None, w3)"
      "Tracepoint_link k w3 = (None, w4)"
      "Lookup_code k w4 = (Inr codeDump, w5)"
      "Update_code k 0 w5 = (Some err, w6)"
      "loadKernelCode k a w =
         (([], Some (FailedToDeleteElement err)),
          restoreRlimit old (prog_Close (perfEvent_Close w6)))"
  | codeDump old w1 w2 w3 w4 w5 w6 where
      "Update_addr k a w = (None, w1)"
      "MaximizeMemlock_rlimit k w1 = (Inr old, w2)"
      "NewProgram_cebpf k w2 = (None, w3)"
      "Tracepoint_link k w3 = (None, w4)"
      "Lookup_code k w4 = (Inr codeDump, w5)"
      "Update_code k 0 w5 = (None, w6)"
      "loadKernelCode k a w =
         ((codeDump, None), restoreRlimit old (prog_Close (perfEvent_Close w6)))"
proof -
  obtain r1 w1 where 1: "Update_addr k a w = (r1, w1)"
    by (cases "Update_addr k a w")
  obtain r2 w2 where 2: "MaximizeMemlock_rlimit k w1 = (r2, w2)"
    by (cases "MaximizeMemlock_rlimit k w1")
  obtain r3 w3 where 3: "NewProgram_cebpf k w2 = (r3, w3)"
    by (cases "NewProgram_cebpf k w2")
  obtain r4 w4 where 4: "Tracepoint_link k w3 = (r4, w4)"
    by (cases "Tracepoint_link k w3")
  obtain r5 w5 where 5: "Lookup_code k w4 = (r5, w5)"
    by (cases "Lookup_code k w4")
  obtain r6 w6 where 6: "Update_code k 0 w5 = (r6, w6)"
    by (cases "Update_code k 0 w5")
  show thesis
  proof (cases r1)
    case (Some err)
    with 1 show thesis
      by (intro that(1) [of err w1]) (simp_all add: loadKernelCode_def)
  next
    case r1: None
    show thesis
    proof (cases r2)
      case (Inl err)
      with 1 2 r1 show thesis
        by (intro that(2) [of w1 err w2]) (simp_all add: loadKernelCode_def)
    next
      case r2: (Inr old)
      show thesis
      proof (cases r3)
        case (Some err)
        with 1 2 3 r1 r2 show thesis
          by (intro that(3) [of w1 old w2 err w3]) (simp_all add: loadKernelCode_def deferred_def)
      next
        case r3: None
        show thesis
        proof (cases r4)
          case (Some err)
          with 1 2 3 4 r1 r2 r3 show thesis
            by (intro that(4) [of w1 old w2 w3 err w4])
              (simp_all add: loadKernelCode_def deferred_def)
        next
          case r4: None
          show thesis
          proof (cases r5)
            case (Inl err)
            with 1 2 3 4 5 r1 r2 r3 r4 show thesis
              by (intro that(5) [of w1 old w2 w3 w4 err w5])
                (simp_all add: loadKernelCode_def deferred_def)
          next
            case r5: (Inr codeDump)
            show thesis
            proof (cases r6)
              case (Some err)
              with 1 2 3 4 5 6 r1 r2 r3 r4 r5 show thesis
                by (intro that(6) [of w1 old w2 w3 w4 codeDump w5 err w6])
                  (simp_all add: loadKernelCode_def deferred_def)
            next
              case None
              with 1 2 3 4 5 6 r1 r2 r3 r4 r5 show thesis
                by (intro that(7) [of w1 old w2 w3 w4 codeDump w5 w6])
                  (simp_all add: loadKernelCode_def deferred_def)
            qed
          qed
        qed
      qed
    qed
  qed
qed



section \<open>loadKernelCode: resources, result, and the cleared slot\<close>

text \<open>
  C8. On every exit path of loadKernelCode, success or error, what the call acquired is
  released: when it returns, the memlock limit is the one it found, and the process
  holds no more loaded programs and no more tracepoint attachments than before the
  call. (The releases are the deferred calls of lines 62, 71 and 77; the function does
  not look at their outcome.)
\<close>

theorem loadKernelCode_releases:
  "memlock (snd (loadKernelCode k a w)) = memlock w \<and>
   programs (snd (loadKernelCode k a w)) = programs w \<and>
   attached (snd (loadKernelCode k a w)) = attached w"
proof (cases rule: loadKernelCode_paths [of k a w])
  case (write_failed err w1)
  then show ?thesis
    using Update_addr_held [of k a w "Some err" w1] by simp
next
  case (rlimit_failed err w1 w2)
  then show ?thesis
    using Update_addr_held [of k a w None w1] MaximizeMemlock_held [of k w1 "Inl err" w2]
    by simp
next
  case (load_failed err old w1 w2 w3)
  then show ?thesis
    using Update_addr_held [of k a w None w1] MaximizeMemlock_held [of k w1 "Inr old" w2]
      NewProgram_held [of k w2 "Some err" w3]
    by (simp add: closes_held)
next
  case (attach_failed err old w1 w2 w3 w4)
  then show ?thesis
    using Update_addr_held [of k a w None w1] MaximizeMemlock_held [of k w1 "Inr old" w2]
      NewProgram_held [of k w2 None w3] Tracepoint_held [of k w3 "Some err" w4]
    by (simp add: closes_held)
next
  case (lookup_failed err old w1 w2 w3 w4 w5)
  then show ?thesis
    using Update_addr_held [of k a w None w1] MaximizeMemlock_held [of k w1 "Inr old" w2]
      NewProgram_held [of k w2 None w3] Tracepoint_held [of k w3 None w4]
      Lookup_code_held [of k w4 "Inl err" w5]
    by (simp add: closes_held)
next
  case (clear_failed err codeDump old w1 w2 w3 w4 w5 w6)
  then show ?thesis
    using Update_addr_held [of k a w None w1] MaximizeMemlock_held [of k w1 "Inr old" w2]
      NewProgram_held [of k w2 None w3] Tracepoint_held [of k w3 None w4]
      Lookup_code_held [of k w4 "Inr codeDump" w5] Update_code_held [of k 0 w5 "Some err" w6]
    by (simp add: closes_held)
next
  case (success codeDump old w1 w2 w3 w4 w5 w6)
  then show ?thesis
    using Update_addr_held [of k a w None w1] MaximizeMemlock_held [of k w1 "Inr old" w2]
      NewProgram_held [of k w2 None w3] Tracepoint_held [of k w3 None w4]
      Lookup_code_held [of k w4 "Inr codeDump" w5] Update_code_held [of k 0 w5 None w6]
    by (simp add: closes_held)
qed

text \<open>
  C6. Every call of loadKernelCode returns either a slice of exactly CodedumpBytes bytes
  with a nil error, or the nil slice with an error; never a shorter or longer result.
\<close>

theorem loadKernelCode_all_or_nothing:
  "(\<exists>codeDump. fst (loadKernelCode k a w) = (codeDump, None) \<and>
       length codeDump = CodedumpBytes k) \<or>
   (\<exists>err. fst (loadKernelCode k a w) = ([], Some err))"
proof (cases rule: loadKernelCode_paths [of k a w])
  case (success codeDump old w1 w2 w3 w4 w5 w6)
  have "0 < attached w4"
    using Tracepoint_held [of k w3 None w4] success(4) by simp
  then have "length codeDump = CodedumpBytes k"
    using Lookup_code_attached [of k w4 codeDump w5] success(5) by simp
  then show ?thesis
    using success(7) by simp
qed simp_all

text \<open>
  When the call succeeds, the slot holds, CodedumpBytes long, the four zero bytes of
  \<^verbatim>\<open>value0\<close> and then what lay behind them in the memory of the process.
\<close>

lemma loadKernelCode_success_slot:
  assumes "loadKernelCode k a w = ((codeDump, None), w')"
  shows "codedump_code w' =
     take (CodedumpBytes k)
       (bytes_of_uint32 0 @ map (behind_value0 k) [0..<CodedumpBytes k - 4])"
proof (cases rule: loadKernelCode_paths [of k a w])
  case (success codeDump' old w1 w2 w3 w4 w5 w6)
  then have "w' = restoreRlimit old (prog_Close (perfEvent_Close w6))"
    using assms by simp
  then show ?thesis
    using Update_code_slot [OF success(6)]
    by (simp add: restoreRlimit_def prog_Close_def perfEvent_Close_def enter_def)
qed (use assms in simp_all)


section \<open>Running the fixtures\<close>

lemmas calls_defs = Update_addr_def MaximizeMemlock_rlimit_def NewProgram_cebpf_def
  Tracepoint_link_def Lookup_code_def Update_code_def deferred_def restoreRlimit_def
  prog_Close_def perfEvent_Close_def bpf_enter_def probe_def enter_def

lemma machine_simps:
  "CodedumpBytes (machine f text) = 8"
  "GetAnalyzers (machine f text) = three_analyzers"
  "hexDump (machine f text) = plain_hex"
  "fails (machine f text) = f"
  "kmem (machine f text) = text_at text"
  "behind_value0 (machine f text) = (\<lambda>i. 0xAA)"
  by (simp_all add: machine_def)

lemma upt_8: "[0..<8] = [0, 1, 2, 3, 4, 5, 6, 7]"
  by (simp add: upt_rec)

lemma upt_4: "[0..<4] = [0, 1, 2, 3]"
  by (simp add: upt_rec)

lemma text_at_base:
  "map (\<lambda>i. text_at [t0, t1, t2, t3, t4, t5, t6, t7] (text_base + of_nat i)) [0..<8] =
     [t0, t1, t2, t3, t4, t5, t6, t7]"
  by (simp add: upt_8 text_at_def)

lemma machine_extraction:
  "loadKernelCode (machine quiet [t0, t1, t2, t3, t4, t5, t6, t7]) text_base boot =
     (([t0, t1, t2, t3, t4, t5, t6, t7], None), extracted)"
  by (simp add: loadKernelCode_def calls_defs machine_simps quiet_def boot_def extracted_def
      one_extraction_def bytes_of_uint32_def text_at_base upt_4)

lemma machine_loop:
  "decode_disp32 (load_disp32 b0 b1) = Inr v \<Longrightarrow>
   analyzerLoop (machine quiet (load_disp32 b0 b1)) all_symbols
     (GetAnalyzers (machine quiet (load_disp32 b0 b1))) boot = (Inr v, extracted)"
  by (simp add: machine_simps three_analyzers_def LookupSymbol_def symbols_of_def
      all_symbols_def symbol_at_base_def) (simp add: load_disp32_def machine_extraction)


text \<open>
  C7. The claim is that after a successful extraction the whole output slot has been
  overwritten with zero bytes. The source clears the slot (line 85: make sure the map is
  cleared for reuse) by an update whose value is the address of the four-byte
  \<^verbatim>\<open>value0\<close>, while a value of the map is CodedumpBytes long. On the fixture machine, where
  a dump has eight bytes and the memory behind \<^verbatim>\<open>value0\<close> holds \<open>0xAA\<close>, the call
  succeeds and leaves four zero bytes followed by four bytes \<open>0xAA\<close> in the slot: the
  slot is overwritten, but not with zeros throughout.
\<close>

theorem loadKernelCode_clear_four_bytes:
  "fst (loadKernelCode (machine quiet (load_disp32 0x10 0x0d)) text_base boot) =
     (load_disp32 0x10 0x0d, None) \<and>
   codedump_code (snd (loadKernelCode (machine quiet (load_disp32 0x10 0x0d)) text_base boot)) =
     [0, 0, 0, 0, 0xAA, 0xAA, 0xAA, 0xAA] \<and>
   codedump_code (snd (loadKernelCode (machine quiet (load_disp32 0x10 0x0d)) text_base boot)) \<noteq>
     replicate (CodedumpBytes (machine quiet (load_disp32 0x10 0x0d))) 0"
proof -
  have "loadKernelCode (machine quiet (load_disp32 0x10 0x0d)) text_base boot =
      ((load_disp32 0x10 0x0d, None), extracted)"
    by (simp add: load_disp32_def machine_extraction)
  moreover have "codedump_code extracted = [0, 0, 0, 0, 0xAA, 0xAA, 0xAA, 0xAA]"
    by (simp add: extracted_def boot_def)
  moreover have "replicate 8 (0 :: byte) = [0, 0, 0, 0, 0, 0, 0, 0]"
    by (simp add: numeral_eq_Suc)
  ultimately show ?thesis
    by (simp add: machine_simps)
qed


section \<open>loadTPBaseOffset\<close>

text \<open>An analyzer whose function name does not resolve is passed over, with no effect.\<close>

lemma analyzerLoop_skip:
  "\<forall>b\<in>set pre. LookupSymbol kernelSymbols (FunctionName b) = None \<Longrightarrow>
     analyzerLoop k kernelSymbols (pre @ rest) w = analyzerLoop k kernelSymbols rest w"
  by (induction pre) simp_all

lemma analyzerLoop_none:
  "\<forall>b\<in>set as. LookupSymbol kernelSymbols (FunctionName b) = None \<Longrightarrow>
     analyzerLoop k kernelSymbols as w = (Inr 0, w)"
  by (induction as) simp_all

lemma unat_ucast_32_64: "unat (ucast (v :: 32 word) :: 64 word) = unat v"
proof -
  have "unat v < 2 ^ 32"
    using unsigned_less [of v] by simp
  then have "unat v < 2 ^ 64"
    by simp
  then show ?thesis
    by (simp add: unsigned_ucast_eq take_bit_nat_eq_self)
qed




text \<open>
  C2. If loadKernelCode fails for the analyzer whose function name resolved,
  loadTPBaseOffset returns 0 and that very error, in the state the failed extraction
  left: nothing more is called, whatever analyzers (\<open>post\<close>) come later in the list.
\<close>

theorem loadTPBaseOffset_extraction_fatal:
  assumes "GetAnalyzers k = pre @ a # post"
    and "\<forall>b\<in>set pre. LookupSymbol kernelSymbols (FunctionName b) = None"
    and "LookupSymbol kernelSymbols (FunctionName a) = Some symb"
    and "loadKernelCode k (Address symb) w = ((code, Some err), w')"
  shows "loadTPBaseOffset k kernelSymbols w = ((0, Some err), w')"
proof -
  have "analyzerLoop k kernelSymbols (GetAnalyzers k) w =
      analyzerLoop k kernelSymbols (a # post) w"
    using assms(1,2) analyzerLoop_skip by simp
  also have "\<dots> = (Inl err, w')"
    using assms(3,4) by simp
  finally show ?thesis
    by (simp add: loadTPBaseOffset_def)
qed

text \<open>
  All three functions are in the symbol table and raising the memlock limit is refused:
  the call log ends with the first extraction's two calls.
\<close>

theorem loadTPBaseOffset_extraction_fatal_witness:
  "loadTPBaseOffset
     (machine (only_fails MaximizeMemlock ''operation not permitted'') (load_disp32 0x10 0x0d))
     all_symbols boot =
   ((0, Some (FailedToAdjustRlimit ''operation not permitted'')),
    boot\<lparr>codedump_addr := text_base, calls := [UpdateAddr text_base, MaximizeMemlock]\<rparr>)"
proof -
  have ext: "loadKernelCode
      (machine (only_fails MaximizeMemlock ''operation not permitted'') (load_disp32 0x10 0x0d))
      text_base boot =
    (([], Some (FailedToAdjustRlimit ''operation not permitted'')),
     boot\<lparr>codedump_addr := text_base, calls := [UpdateAddr text_base, MaximizeMemlock]\<rparr>)"
    by (simp add: loadKernelCode_def calls_defs machine_simps only_fails_def boot_def)
  show ?thesis
    using loadTPBaseOffset_extraction_fatal
        [where k = "machine (only_fails MaximizeMemlock ''operation not permitted'')
          (load_disp32 0x10 0x0d)"
        and pre = "[]" and a = "three_analyzers ! 0" and post = "drop 1 three_analyzers"
        and kernelSymbols = all_symbols
        and symb = "symbol_at_base ''x86_fsbase_write_task''" and w = boot
        and code = "[]" and err = "FailedToAdjustRlimit ''operation not permitted''"
        and w' = "boot\<lparr>codedump_addr := text_base,
          calls := [UpdateAddr text_base, MaximizeMemlock]\<rparr>"] ext
    by (simp add: machine_simps three_analyzers_def LookupSymbol_def symbols_of_def
        all_symbols_def symbol_at_base_def)
qed

text \<open>
  C3. If the extraction succeeded for the analyzer whose function name resolved and its
  decoder fails on the bytes, loadTPBaseOffset returns 0 and an error that wraps the
  decoder's error together with the hex dump of the extracted bytes, in the state the
  extraction left: no later analyzer is tried.
\<close>

theorem loadTPBaseOffset_decode_fatal:
  assumes "GetAnalyzers k = pre @ a # post"
    and "\<forall>b\<in>set pre. LookupSymbol kernelSymbols (FunctionName b) = None"
    and "LookupSymbol kernelSymbols (FunctionName a) = Some symb"
    and "loadKernelCode k (Address symb) w = ((code, None), w')"
    and "Analyze a code = Inl cause"
  shows "loadTPBaseOffset k kernelSymbols w =
    ((0, Some (AnalyzeFailed cause (hexDump k code))), w')"
proof -
  have "analyzerLoop k kernelSymbols (GetAnalyzers k) w =
      analyzerLoop k kernelSymbols (a # post) w"
    using assms(1,2) analyzerLoop_skip by simp
  also have "\<dots> = (Inl (AnalyzeFailed cause (hexDump k code)), w')"
    using assms(3,4,5) by simp
  finally show ?thesis
    by (simp add: loadTPBaseOffset_def)
qed

theorem loadTPBaseOffset_decode_fatal_witness:
  "loadTPBaseOffset (machine quiet [0x55, 0x48, 0x89, 0xe5, 0x0f, 0x1f, 0x44, 0xc3])
     all_symbols boot =
   ((0, Some (AnalyzeFailed ''unexpected code'' ''554889e50f1f44c3'')), extracted)"
proof -
  have dec: "decode_disp32 [0x55, 0x48, 0x89, 0xe5, 0x0f, 0x1f, 0x44, 0xc3] =
      Inl ''unexpected code''"
    by (simp add: decode_disp32_def)
  have dump: "plain_hex [0x55, 0x48, 0x89, 0xe5, 0x0f, 0x1f, 0x44, 0xc3] = ''554889e50f1f44c3''"
    by (simp add: plain_hex_def hex_digit_def)
  show ?thesis
    using loadTPBaseOffset_decode_fatal
        [where k = "machine quiet [0x55, 0x48, 0x89, 0xe5, 0x0f, 0x1f, 0x44, 0xc3]"
        and pre = "[]" and a = "three_analyzers ! 0" and post = "drop 1 three_analyzers"
        and kernelSymbols = all_symbols
        and symb = "symbol_at_base ''x86_fsbase_write_task''" and w = boot
        and code = "[0x55, 0x48, 0x89, 0xe5, 0x0f, 0x1f, 0x44, 0xc3]"
        and cause = "''unexpected code''" and w' = extracted] dec dump
    by (simp add: machine_extraction machine_simps three_analyzers_def LookupSymbol_def
        symbols_of_def all_symbols_def symbol_at_base_def)
qed

text \<open>
  C4. For every decoded offset \<open>v\<close> that reaches the check of line 126 (the loop ended
  with \<open>v\<close>, and \<open>v\<close> is not the zero that line 120 takes for nothing found): the result is
  \<open>v\<close> itself, as a \<^verbatim>\<open>uint64\<close> of the same value and with a nil error, exactly when
  \<open>500 \<le> v \<le> 20000\<close>; otherwise it is 0 and the error that \<open>v\<close> does not look sane. So 499
  and 20001 are rejected, 500 and 20000 are returned.
\<close>

theorem loadTPBaseOffset_bounds:
  assumes "analyzerLoop k kernelSymbols (GetAnalyzers k) w = (Inr v, w')"
    and "v \<noteq> 0"
  shows "loadTPBaseOffset k kernelSymbols w =
      (if 500 \<le> unat v \<and> unat v \<le> 20000 then ((ucast v, None), w')
       else ((0, Some (DoesntLookSane v)), w')) \<and>
    unat (ucast v :: 64 word) = unat v"
proof -
  have "v < 500 \<longleftrightarrow> unat v < 500" "20000 < v \<longleftrightarrow> 20000 < unat v"
    by (simp_all add: word_less_nat_alt)
  then show ?thesis
    using assms by (auto simp: loadTPBaseOffset_def unat_ucast_32_64)
qed

theorem loadTPBaseOffset_bounds_witness:
  "fst (loadTPBaseOffset (machine quiet (load_disp32 0xf3 0x01)) all_symbols boot) =
     (0, Some (DoesntLookSane 499)) \<and>
   fst (loadTPBaseOffset (machine quiet (load_disp32 0xf4 0x01)) all_symbols boot) =
     (500, None) \<and>
   fst (loadTPBaseOffset (machine quiet (load_disp32 0x20 0x4e)) all_symbols boot) =
     (20000, None) \<and>
   fst (loadTPBaseOffset (machine quiet (load_disp32 0x21 0x4e)) all_symbols boot) =
     (0, Some (DoesntLookSane 20001))"
proof -
  have dec:
    "decode_disp32 (load_disp32 0xf3 0x01) = Inr 499"
    "decode_disp32 (load_disp32 0xf4 0x01) = Inr 500"
    "decode_disp32 (load_disp32 0x20 0x4e) = Inr 20000"
    "decode_disp32 (load_disp32 0x21 0x4e) = Inr 20001"
    by (simp_all add: decode_disp32_def load_disp32_def uint32_le_def)
  show ?thesis
    using loadTPBaseOffset_bounds [OF machine_loop [OF dec(1)]]
      loadTPBaseOffset_bounds [OF machine_loop [OF dec(2)]]
      loadTPBaseOffset_bounds [OF machine_loop [OF dec(3)]]
      loadTPBaseOffset_bounds [OF machine_loop [OF dec(4)]]
    by simp
qed

text \<open>
  C5. If the symbol table holds the function name of none of the registered analyzers,
  loadTPBaseOffset returns offset 0 and the error that no supported symbol was found,
  and has called nothing.
\<close>

theorem loadTPBaseOffset_no_symbol:
  assumes "\<forall>a\<in>set (GetAnalyzers k). LookupSymbol kernelSymbols (FunctionName a) = None"
  shows "loadTPBaseOffset k kernelSymbols w = ((0, Some NoSupportedSymbolFound), w)"
  using analyzerLoop_none [OF assms] by (simp add: loadTPBaseOffset_def)

theorem loadTPBaseOffset_no_symbol_witness:
  "loadTPBaseOffset (machine quiet (load_disp32 0x10 0x0d)) (symbols_of []) boot =
     ((0, Some NoSupportedSymbolFound), boot)"
  using loadTPBaseOffset_no_symbol
    [of "machine quiet (load_disp32 0x10 0x0d)" "symbols_of []" boot]
  by (simp add: LookupSymbol_def symbols_of_def)

text \<open>
  C9. If the decoder of the first analyzer that is reached succeeds and returns 0,
  loadTPBaseOffset does not report that the offset does not look sane: line 120 takes
  the 0 for the value \<^verbatim>\<open>tpbaseOffset\<close> was declared with, and the call fails with the
  error that no supported symbol was found.
\<close>

theorem loadTPBaseOffset_zero_is_not_found:
  assumes "GetAnalyzers k = pre @ a # post"
    and "\<forall>b\<in>set pre. LookupSymbol kernelSymbols (FunctionName b) = None"
    and "LookupSymbol kernelSymbols (FunctionName a) = Some symb"
    and "loadKernelCode k (Address symb) w = ((code, None), w')"
    and "Analyze a code = Inr 0"
  shows "loadTPBaseOffset k kernelSymbols w = ((0, Some NoSupportedSymbolFound), w')"
proof -
  have "analyzerLoop k kernelSymbols (GetAnalyzers k) w =
      analyzerLoop k kernelSymbols (a # post) w"
    using assms(1,2) analyzerLoop_skip by simp
  also have "\<dots> = (Inr 0, w')"
    using assms(3,4,5) by simp
  finally show ?thesis
    by (simp add: loadTPBaseOffset_def)
qed

theorem loadTPBaseOffset_zero_is_not_found_witness:
  "loadTPBaseOffset (machine quiet (load_disp32 0 0)) all_symbols boot =
     ((0, Some NoSupportedSymbolFound), extracted)"
proof -
  have dec: "decode_disp32 (load_disp32 0 0) = Inr 0"
    by (simp add: decode_disp32_def load_disp32_def uint32_le_def)
  have ext: "loadKernelCode (machine quiet (load_disp32 0 0)) text_base boot =
      ((load_disp32 0 0, None), extracted)"
    by (simp add: machine_extraction load_disp32_def)
  show ?thesis
    using loadTPBaseOffset_zero_is_not_found [where k = "machine quiet (load_disp32 0 0)"
        and pre = "[]" and a = "three_analyzers ! 0" and post = "drop 1 three_analyzers"
        and kernelSymbols = all_symbols
        and symb = "symbol_at_base ''x86_fsbase_write_task''" and w = boot
        and code = "load_disp32 0 0" and w' = extracted] dec ext
    by (simp add: machine_simps three_analyzers_def LookupSymbol_def symbols_of_def
        all_symbols_def symbol_at_base_def)
qed

end
